theory Spec2Isabelle
  imports Main
begin

section \<open>The authentication controller of express-ts-auth-service\<close>

text \<open>
  The theory embeds \<^verbatim>\<open>src/controller/auth.controller.ts\<close>: the four request handlers
  \<^verbatim>\<open>handleSingUp\<close>, \<^verbatim>\<open>handleLogin\<close>, \<^verbatim>\<open>handleLogout\<close> and \<^verbatim>\<open>handleRefresh\<close>.
  A handler is a function of the environment of the call, the request and the state of the
  database; it returns how the handler ended, the response it built and the new state.
  The \<^verbatim>\<open>await\<close>s of a handler are run one after the other, and a callback that the
  handler starts is run to its end: the model is sequential.
\<close>

subsection \<open>The database\<close>

text \<open>
  The Prisma tables. \<^verbatim>\<open>user\<close> is read by its unique email, \<^verbatim>\<open>refreshToken\<close> and
  \<^verbatim>\<open>emailVerificationToken\<close> by their unique token, so each table is a map from that key.
  A row of \<^verbatim>\<open>refreshToken\<close> is the user id that owns the token.
\<close>

record user =
  uid :: string
  name :: string
  email :: string
  password :: string
  emailVerified :: bool

datatype table = UserTable | EmailVerificationTokenTable | RefreshTokenTable

datatype exn =
    HeadersSent
  | UniqueViolation table
  | RecordNotFound table
  | WriteFailed table
  | Argon2Failed

datatype logEntry = Warn string | Error exn | Console string string

record state =
  users :: "string \<rightharpoonup> user"
  refreshTokens :: "string \<rightharpoonup> string"
  emailVerificationTokens :: "string \<rightharpoonup> nat \<times> string"
  outbox :: "(string \<times> string) list"
  logs :: "logEntry list"

subsection \<open>The environment of a call\<close>

text \<open>
  What a handler uses and the source file does not define is a field of the environment:
  the configured cookie name, the token functions of \<^verbatim>\<open>utils/generateTokens.util\<close>,
  \<^verbatim>\<open>jsonwebtoken\<close>'s \<^verbatim>\<open>verify\<close> with the refresh secret (\<open>None\<close> is its error,
  \<open>Some u\<close> a payload whose \<^verbatim>\<open>userId\<close> is \<open>u\<close>), \<^verbatim>\<open>argon2\<close>, \<^verbatim>\<open>uuidv4\<close>, the clock,
  the id the database gives a new user, and whether a \<^verbatim>\<open>create\<close> on a table fails in the
  store itself. The verification of a token depends on the time, so each call has its
  own environment.

  \<open>strictResponse\<close> says what the response object does when it is written to after it has
  been sent: it raises (as Express does, \<^verbatim>\<open>ERR_HTTP_HEADERS_SENT\<close>) or it ignores the write.
\<close>

record env =
  strictResponse :: bool
  refresh_token_cookie_name :: string
  verify :: "string \<Rightarrow> string option"
  createAccessToken :: "string \<Rightarrow> string"
  createRefreshToken :: "string \<Rightarrow> string"
  argon2_hash :: "string \<Rightarrow> string option"
  argon2_verify :: "string \<Rightarrow> string \<Rightarrow> bool option"
  uuidv4 :: string
  now :: nat
  newUserId :: string
  writeFails :: "table \<Rightarrow> bool"

subsection \<open>Requests and responses\<close>

record request =
  cookies :: "string \<rightharpoonup> string"
  bodyUsername :: "string option"
  bodyEmail :: "string option"
  bodyPassword :: "string option"

datatype body = Text string | Message string | AccessToken string

datatype cookieOp = SetCookie string string | ClearCookie string

text \<open>
  \<open>sent\<close> is the status and the body that went to the client, \<open>None\<close> while nothing has
  been sent; \<open>cookieOps\<close> are the \<^verbatim>\<open>Set-Cookie\<close> headers in the order they were added.
\<close>

record response =
  statusCode :: nat
  sent :: "(nat \<times> body) option"
  cookieOps :: "cookieOp list"

datatype outcome = Returned | Rejected exn

definition res0 :: response where
  "res0 = \<lparr>statusCode = 200, sent = None, cookieOps = []\<rparr>"

fun statusText :: "nat \<Rightarrow> string" where
  "statusText c =
     (if c = 204 then ''No Content''
      else if c = 401 then ''Unauthorized''
      else if c = 403 then ''Forbidden''
      else if c = 409 then ''Conflict''
      else if c = 500 then ''Internal Server Error''
      else [])"

text \<open>A write to the response: done while nothing has been sent, raised or ignored after.\<close>

definition writeRes :: "env \<Rightarrow> (response \<Rightarrow> response) \<Rightarrow> response \<Rightarrow> exn + response" where
  "writeRes e f r =
     (if sent r = None then Inr (f r)
      else if strictResponse e then Inl HeadersSent
      else Inr r)"

definition status :: "nat \<Rightarrow> response \<Rightarrow> response" where
  "status c r = r\<lparr>statusCode := c\<rparr>"

definition json :: "env \<Rightarrow> body \<Rightarrow> response \<Rightarrow> exn + response" where
  "json e b = writeRes e (\<lambda>r. r\<lparr>sent := Some (statusCode r, b)\<rparr>)"

text \<open>
  \<^verbatim>\<open>res.sendStatus\<close> sends the status with its text as the body; a 204 goes out without
  a body.
\<close>

definition sendStatus :: "env \<Rightarrow> nat \<Rightarrow> response \<Rightarrow> exn + response" where
  "sendStatus e c =
     writeRes e (\<lambda>r. r\<lparr>statusCode := c,
                         sent := Some (c, Text (if c = 204 then [] else statusText c))\<rparr>)"

text \<open>\<^verbatim>\<open>res.send\<close> with a number: the status with its text as body (Express 4).\<close>

definition sendNumber :: "env \<Rightarrow> nat \<Rightarrow> response \<Rightarrow> exn + response" where
  "sendNumber e c = sendStatus e c"

definition cookie :: "env \<Rightarrow> string \<Rightarrow> string \<Rightarrow> response \<Rightarrow> exn + response" where
  "cookie e n v = writeRes e (\<lambda>r. r\<lparr>cookieOps := cookieOps r @ [SetCookie n v]\<rparr>)"

definition clearCookie :: "env \<Rightarrow> string \<Rightarrow> response \<Rightarrow> exn + response" where
  "clearCookie e n = writeRes e (\<lambda>r. r\<lparr>cookieOps := cookieOps r @ [ClearCookie n]\<rparr>)"

text \<open>
  The end of a handler on a last write to the response: the handler returns, or the write
  raised and the handler is left with the response as it was.
\<close>

fun finish :: "exn + response \<Rightarrow> response \<Rightarrow> state \<Rightarrow> outcome \<times> response \<times> state" where
  "finish (Inl x) r st = (Rejected x, r, st)"
| "finish (Inr r') r st = (Returned, r', st)"

subsection \<open>The operations on the refresh-token table\<close>

text \<open>
  A read completes, and so does the delete of a row that is there. A \<^verbatim>\<open>delete\<close> of a
  row that is not there rejects, a \<^verbatim>\<open>create\<close> rejects on a token that is already in the
  table or when the store fails the write (\<open>writeFails\<close>); \<^verbatim>\<open>deleteMany\<close> deletes the
  rows of one owner and does not reject.
\<close>

definition rtFindUnique :: "string \<Rightarrow> state \<Rightarrow> string option" where
  "rtFindUnique t st = refreshTokens st t"

definition rtDelete :: "string \<Rightarrow> state \<Rightarrow> exn + state" where
  "rtDelete t st =
     (case refreshTokens st t of
        None \<Rightarrow> Inl (RecordNotFound RefreshTokenTable)
      | Some _ \<Rightarrow> Inr (st\<lparr>refreshTokens := (refreshTokens st)(t := None)\<rparr>))"

definition rtDeleteMany :: "string \<Rightarrow> state \<Rightarrow> state" where
  "rtDeleteMany u st =
     st\<lparr>refreshTokens := (\<lambda>t. if refreshTokens st t = Some u then None else refreshTokens st t)\<rparr>"

definition rtCreate :: "env \<Rightarrow> string \<Rightarrow> string \<Rightarrow> state \<Rightarrow> exn + state" where
  "rtCreate e t u st =
     (if writeFails e RefreshTokenTable then Inl (WriteFailed RefreshTokenTable)
      else (case refreshTokens st t of
              Some _ \<Rightarrow> Inl (UniqueViolation RefreshTokenTable)
            | None \<Rightarrow> Inr (st\<lparr>refreshTokens := (refreshTokens st)(t \<mapsto> u)\<rparr>)))"

subsection \<open>handleRefresh\<close>

text \<open>
  The callback of \<^verbatim>\<open>verify\<close> when the token is not in the table (lines 258 to 271), with
  the \<^verbatim>\<open>sendStatus\<close> that follows it: on an error the callback has sent 403 and the
  handler sends it again.
\<close>

definition reuseDetected :: "env \<Rightarrow> string \<Rightarrow> response \<Rightarrow> state \<Rightarrow> outcome \<times> response \<times> state" where
  "reuseDetected e refreshToken r st =
     (case verify e refreshToken of
        None \<Rightarrow>
          (case sendStatus e 403 r of
             Inl x \<Rightarrow> (Rejected x, r, st)
           | Inr r' \<Rightarrow> finish (sendStatus e 403 r') r' st)
      | Some userId \<Rightarrow>
          finish (sendStatus e 403 r) r
            (rtDeleteMany userId (st\<lparr>logs := logs st @ [Warn ''attempted refresh token reuse!'']\<rparr>)))"

text \<open>The callback of \<^verbatim>\<open>verify\<close> when the token was found (lines 282 to 315).\<close>

definition rotation :: "env \<Rightarrow> string \<Rightarrow> string \<Rightarrow> response \<Rightarrow> state \<Rightarrow> outcome \<times> response \<times> state" where
  "rotation e refreshToken owner r st =
     (case verify e refreshToken of
        None \<Rightarrow> finish (sendStatus e 403 r) r st
      | Some userId \<Rightarrow>
          if owner \<noteq> userId then finish (sendStatus e 403 r) r st
          else
            let accessToken = createAccessToken e userId;
                newRefreshToken = createRefreshToken e userId;
                st' = (case rtCreate e newRefreshToken userId st of
                         Inl x \<Rightarrow> st\<lparr>logs := logs st @ [Error x]\<rparr>
                       | Inr s \<Rightarrow> s)
            in (case cookie e (refresh_token_cookie_name e) newRefreshToken r of
                  Inl x \<Rightarrow> (Rejected x, r, st')
                | Inr r' \<Rightarrow> finish (json e (AccessToken accessToken) r') r' st'))"

definition handleRefresh :: "env \<Rightarrow> request \<Rightarrow> state \<Rightarrow> outcome \<times> response \<times> state" where
  "handleRefresh e req st =
     (case cookies req (refresh_token_cookie_name e) of
        None \<Rightarrow> finish (sendStatus e 401 res0) res0 st
      | Some token \<Rightarrow>
          if token = [] then finish (sendStatus e 401 res0) res0 st
          else
            (case clearCookie e (refresh_token_cookie_name e) res0 of
               Inl x \<Rightarrow> (Rejected x, res0, st)
             | Inr r \<Rightarrow>
                 (case rtFindUnique token st of
                    None \<Rightarrow> reuseDetected e token r st
                  | Some owner \<Rightarrow>
                      (case rtDelete token st of
                         Inl x \<Rightarrow> (Rejected x, r, st)
                       | Inr st1 \<Rightarrow> rotation e token owner r st1))))"

subsection \<open>handleLogout\<close>

definition handleLogout :: "env \<Rightarrow> request \<Rightarrow> state \<Rightarrow> outcome \<times> response \<times> state" where
  "handleLogout e req st =
     (case cookies req ''jid'' of
        None \<Rightarrow> finish (sendStatus e 204 res0) res0 st
      | Some refreshToken \<Rightarrow>
          if refreshToken = [] then finish (sendStatus e 204 res0) res0 st
          else
            (case rtFindUnique refreshToken st of
               None \<Rightarrow>
                 (case clearCookie e (refresh_token_cookie_name e) res0 of
                    Inl x \<Rightarrow> (Rejected x, res0, st)
                  | Inr r \<Rightarrow> finish (sendStatus e 204 r) r st)
             | Some foundRft \<Rightarrow>
                 (case rtDelete refreshToken st of
                    Inl x \<Rightarrow> (Rejected x, res0, st)
                  | Inr st1 \<Rightarrow>
                      (case clearCookie e (refresh_token_cookie_name e) res0 of
                         Inl x \<Rightarrow> (Rejected x, res0, st1)
                       | Inr r \<Rightarrow> finish (sendStatus e 204 r) r st1))))"

subsection \<open>The operations on the other tables\<close>

text \<open>
  A new user gets the id the database chooses and is not verified; the email is unique.
\<close>

definition userCreate :: "env \<Rightarrow> string \<Rightarrow> string \<Rightarrow> string \<Rightarrow> state \<Rightarrow> exn + user \<times> state" where
  "userCreate e n em pw st =
     (if writeFails e UserTable then Inl (WriteFailed UserTable)
      else (case users st em of
              Some _ \<Rightarrow> Inl (UniqueViolation UserTable)
            | None \<Rightarrow>
                (let u = \<lparr>uid = newUserId e, name = n, email = em, password = pw,
                           emailVerified = False\<rparr>
                 in Inr (u, st\<lparr>users := (users st)(em \<mapsto> u)\<rparr>))))"

definition evtCreate :: "env \<Rightarrow> string \<Rightarrow> nat \<Rightarrow> string \<Rightarrow> state \<Rightarrow> exn + state" where
  "evtCreate e t expiresAt u st =
     (if writeFails e EmailVerificationTokenTable
      then Inl (WriteFailed EmailVerificationTokenTable)
      else (case emailVerificationTokens st t of
              Some _ \<Rightarrow> Inl (UniqueViolation EmailVerificationTokenTable)
            | None \<Rightarrow>
                Inr (st\<lparr>emailVerificationTokens :=
                          (emailVerificationTokens st)(t \<mapsto> (expiresAt, u))\<rparr>)))"

text \<open>A field of the body or a cookie is truthy when it is there and not the empty string.\<close>

definition truthy :: "string option \<Rightarrow> bool" where
  "truthy v = (case v of None \<Rightarrow> False | Some s \<Rightarrow> s \<noteq> [])"

definition str :: "string option \<Rightarrow> string" where
  "str v = (case v of None \<Rightarrow> [] | Some s \<Rightarrow> s)"

subsection \<open>handleSingUp\<close>

text \<open>The \<^verbatim>\<open>try\<close> block of the handler (lines 57 to 84); its \<^verbatim>\<open>catch\<close> sends 500.\<close>

definition signUpTry :: "env \<Rightarrow> string \<Rightarrow> string \<Rightarrow> string \<Rightarrow> state \<Rightarrow> outcome \<times> response \<times> state" where
  "signUpTry e username em pw st =
     (case argon2_hash e pw of
        None \<Rightarrow> finish (sendStatus e 500 res0) res0 st
      | Some hashedPassword \<Rightarrow>
          (case userCreate e username em hashedPassword st of
             Inl x \<Rightarrow> finish (sendStatus e 500 res0) res0 st
           | Inr (newUser, st1) \<Rightarrow>
               (case evtCreate e (uuidv4 e) (now e + 3600000) (uid newUser) st1 of
                  Inl x \<Rightarrow> finish (sendStatus e 500 res0) res0 st1
                | Inr st2 \<Rightarrow>
                    (let st3 = st2\<lparr>outbox := outbox st2 @ [(em, uuidv4 e)]\<rparr>
                     in (case json e (Message ''New user created'') (status 201 res0) of
                           Inl x \<Rightarrow> finish (sendStatus e 500 (status 201 res0)) (status 201 res0) st3
                         | Inr r \<Rightarrow> (Returned, r, st3))))))"

definition handleSingUp :: "env \<Rightarrow> request \<Rightarrow> state \<Rightarrow> outcome \<times> response \<times> state" where
  "handleSingUp e req st =
     (if \<not> (truthy (bodyUsername req) \<and> truthy (bodyEmail req) \<and> truthy (bodyPassword req))
      then finish (json e (Message ''Username, email and password are required!'')
                     (status 400 res0)) (status 400 res0) st
      else (case users st (str (bodyEmail req)) of
              Some checkUserEmail \<Rightarrow> finish (sendStatus e 409 res0) res0 st
            | None \<Rightarrow>
                signUpTry e (str (bodyUsername req)) (str (bodyEmail req))
                  (str (bodyPassword req)) st))"

subsection \<open>handleLogin\<close>

text \<open>
  The check of the verified flag (lines 116 to 120): it sends 401 and a message and does
  not return. Its two writes are outside the \<^verbatim>\<open>try\<close> block: if one raises, the handler
  is rejected with the response as it is then.
\<close>

definition checkVerified :: "env \<Rightarrow> user \<Rightarrow> response \<Rightarrow> exn \<times> response + response" where
  "checkVerified e u r =
     (if \<not> emailVerified u
      then (case sendNumber e 401 r of
              Inl x \<Rightarrow> Inl (x, r)
            | Inr r1 \<Rightarrow>
                (case json e (Message ''Your email is not verified! Please confirm your email!'') r1 of
                   Inl x \<Rightarrow> Inl (x, r1)
                 | Inr r2 \<Rightarrow> Inr r2))
      else Inr r)"

text \<open>
  The treatment of the cookie \<^verbatim>\<open>jid\<close> that a login carries (lines 130 to 160). A step
  that raises gives the exception with the response and the state reached.
\<close>

definition clearSessions ::
  "env \<Rightarrow> string option \<Rightarrow> user \<Rightarrow> response \<Rightarrow> state \<Rightarrow> exn \<times> response \<times> state + response \<times> state" where
  "clearSessions e jid u r st =
     (case jid of
        None \<Rightarrow> Inr (r, st)
      | Some c \<Rightarrow>
          if c = [] then Inr (r, st)
          else
            (case (case rtFindUnique c st of
                     None \<Rightarrow> Inr (rtDeleteMany (uid u) st)
                   | Some owner \<Rightarrow>
                       if owner \<noteq> uid u then Inr (rtDeleteMany (uid u) st)
                       else rtDelete c st) of
               Inl x \<Rightarrow> Inl (x, r, st)
             | Inr st1 \<Rightarrow>
                 (case clearCookie e (refresh_token_cookie_name e) r of
                    Inl x \<Rightarrow> Inl (x, r, st1)
                  | Inr r1 \<Rightarrow> Inr (r1, st1))))"

text \<open>The new pair of tokens (lines 162 to 184).\<close>

definition issueTokens ::
  "env \<Rightarrow> user \<Rightarrow> response \<Rightarrow> state \<Rightarrow> exn \<times> response \<times> state + response \<times> state" where
  "issueTokens e u r st =
     (let accessToken = createAccessToken e (uid u);
          newRefreshToken = createRefreshToken e (uid u)
      in (case rtCreate e newRefreshToken (uid u) st of
            Inl x \<Rightarrow> Inl (x, r, st)
          | Inr st1 \<Rightarrow>
              (let st2 = st1\<lparr>logs := logs st1 @ [Console newRefreshToken (uid u)]\<rparr>
               in (case cookie e (refresh_token_cookie_name e) newRefreshToken r of
                     Inl x \<Rightarrow> Inl (x, r, st2)
                   | Inr r1 \<Rightarrow>
                       (case json e (AccessToken accessToken) r1 of
                          Inl x \<Rightarrow> Inl (x, r1, st2)
                        | Inr r2 \<Rightarrow> Inr (r2, st2))))))"

text \<open>The \<^verbatim>\<open>try\<close> block (lines 123 to 190); its \<^verbatim>\<open>catch\<close> sends 500.\<close>

definition loginTry :: "env \<Rightarrow> request \<Rightarrow> user \<Rightarrow> response \<Rightarrow> state \<Rightarrow> outcome \<times> response \<times> state" where
  "loginTry e req u r st =
     (case (case argon2_verify e (password u) (str (bodyPassword req)) of
              None \<Rightarrow> Inl (Argon2Failed, r, st)
            | Some ok \<Rightarrow>
                if ok
                then (case clearSessions e (cookies req ''jid'') u r st of
                        Inl t \<Rightarrow> Inl t
                      | Inr (r1, st1) \<Rightarrow> issueTokens e u r1 st1)
                else (case sendStatus e 401 r of
                        Inl x \<Rightarrow> Inl (x, r, st)
                      | Inr r1 \<Rightarrow> Inr (r1, st))) of
        Inl (x, r', st') \<Rightarrow> finish (sendStatus e 500 r') r' st'
      | Inr (r', st') \<Rightarrow> (Returned, r', st'))"

definition handleLogin :: "env \<Rightarrow> request \<Rightarrow> state \<Rightarrow> outcome \<times> response \<times> state" where
  "handleLogin e req st =
     (if \<not> (truthy (bodyEmail req) \<and> truthy (bodyPassword req))
      then finish (json e (Message ''Email and password are required!'') (status 400 res0))
             (status 400 res0) st
      else (case users st (str (bodyEmail req)) of
              None \<Rightarrow> finish (sendStatus e 401 res0) res0 st
            | Some u \<Rightarrow>
                (case checkVerified e u res0 of
                   Inl (x, r) \<Rightarrow> (Rejected x, r, st)
                 | Inr r \<Rightarrow> loginTry e req u r st)))"

subsection \<open>The token codec\<close>

text \<open>
  The handlers take the token functions from the environment. What these functions return
  is fixed by \<^verbatim>\<open>utils/generateTokens.util\<close> and \<^verbatim>\<open>jsonwebtoken\<close>, which the source
  file only imports; the specification describes them as its Token Codec: signed claims
  with a subject and an expiry, a pure function of a secret and a payload. The signature
  scheme itself is a parameter: \<open>sign\<close> makes the token of a secret and the claims,
  \<open>unsign\<close> reads the claims back when the signature matches the secret.
\<close>

datatype verificationError = ExpiredToken | InvalidSignature | Malformed

record codec =
  sign :: "string \<Rightarrow> string \<times> nat \<Rightarrow> string"
  unsign :: "string \<Rightarrow> string \<Rightarrow> verificationError + string \<times> nat"

record tokenConfig =
  accessSecret :: string
  refreshSecret :: string
  accessWindow :: nat
  refreshWindow :: nat

text \<open>
  Modelled from the spec: \<^verbatim>\<open>createAccessToken\<close> of \<^verbatim>\<open>utils/generateTokens.util\<close>, which
  is not in the source file. "issueAccessToken(userId) -> token: short validity window.
  Carries only the subject id. No side effects, no storage." The token is signed with the
  access secret at the time \<open>t\<close> of the call.
\<close>

definition issueAccessToken :: "codec \<Rightarrow> tokenConfig \<Rightarrow> nat \<Rightarrow> string \<Rightarrow> string" where
  "issueAccessToken c k t u = sign c (accessSecret k) (u, t + accessWindow k)"

text \<open>
  Modelled from the spec: \<^verbatim>\<open>createRefreshToken\<close> of \<^verbatim>\<open>utils/generateTokens.util\<close>,
  which is not in the source file. "issueRefreshToken(userId) -> token: long validity
  window. Carries only the subject id. No side effects, no storage." The token is signed
  with the refresh secret, distinct from the access secret, at the time \<open>t\<close> of the call.
\<close>

definition issueRefreshToken :: "codec \<Rightarrow> tokenConfig \<Rightarrow> nat \<Rightarrow> string \<Rightarrow> string" where
  "issueRefreshToken c k t u = sign c (refreshSecret k) (u, t + refreshWindow k)"

text \<open>
  Modelled from the spec: \<^verbatim>\<open>verify\<close> of \<^verbatim>\<open>jsonwebtoken\<close>, which is not in the source
  file. "verify(token, secret) -> {subjectId} | VerificationError: fails with ExpiredToken
  when past expiry, InvalidSignature when the signature does not match, Malformed when
  structurally invalid."
\<close>

definition verifyToken :: "codec \<Rightarrow> string \<Rightarrow> nat \<Rightarrow> string \<Rightarrow> verificationError + string" where
  "verifyToken c secret t tok =
     (case unsign c secret tok of
        Inl x \<Rightarrow> Inl x
      | Inr (u, expiry) \<Rightarrow> if expiry < t then Inl ExpiredToken else Inr u)"

text \<open>
  Modelled from the spec: the environment of a call made at the time \<open>t\<close>, when the token
  functions are those of the Token Codec. The handlers verify with the refresh secret and
  only look at whether there is an error.
\<close>

definition codecEnv :: "codec \<Rightarrow> tokenConfig \<Rightarrow> nat \<Rightarrow> env \<Rightarrow> env" where
  "codecEnv c k t b =
     b\<lparr>verify := (\<lambda>tok. case verifyToken c (refreshSecret k) t tok of
                          Inl x \<Rightarrow> None
                        | Inr u \<Rightarrow> Some u),
       createAccessToken := issueAccessToken c k t,
       createRefreshToken := issueRefreshToken c k t,
       now := t\<rparr>"

subsection \<open>The parts of a handler's result\<close>

definition outOf :: "outcome \<times> response \<times> state \<Rightarrow> outcome" where
  "outOf x = fst x"

definition resOf :: "outcome \<times> response \<times> state \<Rightarrow> response" where
  "resOf x = fst (snd x)"

definition stateOf :: "outcome \<times> response \<times> state \<Rightarrow> state" where
  "stateOf x = snd (snd x)"

subsection \<open>What the cookie of a login leaves\<close>

text \<open>
  The response and the state after lines 130 to 160 when no write raises: nothing changes
  without a cookie; the cookie is cleared, and then the one session is deleted if the
  cookie is a session of the user, all sessions of the user otherwise.
\<close>

definition afterClear :: "env \<Rightarrow> string option \<Rightarrow> user \<Rightarrow> response \<Rightarrow> state \<Rightarrow> response \<times> state" where
  "afterClear e jid u r st =
     (case jid of
        None \<Rightarrow> (r, st)
      | Some c \<Rightarrow>
          if c = [] then (r, st)
          else (r\<lparr>cookieOps := cookieOps r @ [ClearCookie (refresh_token_cookie_name e)]\<rparr>,
                if refreshTokens st c = Some (uid u)
                then st\<lparr>refreshTokens := (refreshTokens st)(c := None)\<rparr>
                else rtDeleteMany (uid u) st))"

subsection \<open>Executions\<close>

text \<open>
  An execution is a list of calls of the handlers, each with its own environment and
  request, run one after the other on the state.
\<close>

datatype call =
    SingUp env request
  | Login env request
  | Logout env request
  | Refresh env request

fun envOf :: "call \<Rightarrow> env" where
  "envOf (SingUp e req) = e"
| "envOf (Login e req) = e"
| "envOf (Logout e req) = e"
| "envOf (Refresh e req) = e"

fun step :: "call \<Rightarrow> state \<Rightarrow> state" where
  "step (SingUp e req) st = stateOf (handleSingUp e req st)"
| "step (Login e req) st = stateOf (handleLogin e req st)"
| "step (Logout e req) st = stateOf (handleLogout e req st)"
| "step (Refresh e req) st = stateOf (handleRefresh e req st)"

fun run :: "call list \<Rightarrow> state \<Rightarrow> state" where
  "run [] st = st"
| "run (c # cs) st = run cs (step c st)"

text \<open>The token function of a call never returns the token \<open>t\<close>.\<close>

definition neverMints :: "env \<Rightarrow> string \<Rightarrow> bool" where
  "neverMints e t = (\<forall>u. createRefreshToken e u \<noteq> t)"

subsection \<open>Example data\<close>

text \<open>
  Three users, of whom carol has not verified her email, one session each, and an
  environment in which the passwords are hashed by a mark in front.
\<close>

definition alice :: user where
  "alice = \<lparr>uid = ''u1'', name = ''alice'', email = ''alice@x.org'', password = ''#pwA'',
            emailVerified = True\<rparr>"

definition bob :: user where
  "bob = \<lparr>uid = ''u2'', name = ''bob'', email = ''bob@x.org'', password = ''#pwB'',
          emailVerified = True\<rparr>"

definition carol :: user where
  "carol = \<lparr>uid = ''u3'', name = ''carol'', email = ''carol@x.org'', password = ''#pwC'',
            emailVerified = False\<rparr>"

definition exState :: state where
  "exState =
     \<lparr>users = [''alice@x.org'' \<mapsto> alice, ''bob@x.org'' \<mapsto> bob, ''carol@x.org'' \<mapsto> carol],
      refreshTokens = [''RA'' \<mapsto> ''u1'', ''RB'' \<mapsto> ''u2'', ''RC'' \<mapsto> ''u3''],
      emailVerificationTokens = Map.empty,
      outbox = [],
      logs = []\<rparr>"

definition exEnv :: env where
  "exEnv =
     \<lparr>strictResponse = True,
      refresh_token_cookie_name = ''jid'',
      verify = (\<lambda>t. if t = ''RA'' then Some ''u1''
                    else if t = ''RB'' then Some ''u2''
                    else if t = ''RC'' then Some ''u3''
                    else if t = ''RX'' then Some ''u1''
                    else None),
      createAccessToken = (\<lambda>u. ''access-'' @ u),
      createRefreshToken = (\<lambda>u. ''fresh-'' @ u),
      argon2_hash = (\<lambda>p. Some (''#'' @ p)),
      argon2_verify = (\<lambda>h p. Some (h = ''#'' @ p)),
      uuidv4 = ''uuid-1'',
      now = 1000,
      newUserId = ''u4'',
      writeFails = (\<lambda>_. False)\<rparr>"

definition cookieRequest :: "string \<Rightarrow> request" where
  "cookieRequest t =
     \<lparr>cookies = [''jid'' \<mapsto> t], bodyUsername = None, bodyEmail = None, bodyPassword = None\<rparr>"

definition loginRequest :: "string \<Rightarrow> string \<Rightarrow> string option \<Rightarrow> request" where
  "loginRequest em pw jid =
     \<lparr>cookies = (\<lambda>n. if n = ''jid'' then jid else None),
      bodyUsername = None, bodyEmail = Some em, bodyPassword = Some pw\<rparr>"

definition signUpRequest :: "string option \<Rightarrow> string option \<Rightarrow> string option \<Rightarrow> request" where
  "signUpRequest n em pw =
     \<lparr>cookies = Map.empty, bodyUsername = n, bodyEmail = em, bodyPassword = pw\<rparr>"

text \<open>
  A codec to run the examples with: a token is the secret, the subject and the expiry in
  unary, with dots between them.
\<close>

fun splitDots :: "string \<Rightarrow> string list" where
  "splitDots [] = [[]]"
| "splitDots (c # cs) =
     (if c = CHR ''.'' then [] # splitDots cs
      else (case splitDots cs of
              [] \<Rightarrow> [[c]]
            | w # ws \<Rightarrow> (c # w) # ws))"

definition dotSign :: "string \<Rightarrow> string \<times> nat \<Rightarrow> string" where
  "dotSign s cl = s @ ''.'' @ fst cl @ ''.'' @ replicate (snd cl) (CHR ''1'')"

definition dotUnsign :: "string \<Rightarrow> string \<Rightarrow> verificationError + string \<times> nat" where
  "dotUnsign s t =
     (case splitDots t of
        [s', u, n] \<Rightarrow>
          if s' \<noteq> s then Inl InvalidSignature
          else if n = replicate (length n) (CHR ''1'') then Inr (u, length n)
          else Inl Malformed
      | _ \<Rightarrow> Inl Malformed)"

definition dotCodec :: codec where
  "dotCodec = \<lparr>sign = dotSign, unsign = dotUnsign\<rparr>"

definition exConfig :: tokenConfig where
  "exConfig = \<lparr>accessSecret = ''as'', refreshSecret = ''rs'', accessWindow = 1, refreshWindow = 3\<rparr>"

definition emptyState :: state where
  "emptyState = exState\<lparr>refreshTokens := Map.empty\<rparr>"

section \<open>Facts about the handlers\<close>

subsection \<open>The response and the login\<close>

lemma parts [simp]: "outOf (a, b, c) = a" "resOf (a, b, c) = b" "stateOf (a, b, c) = c"
  by (simp_all add: outOf_def resOf_def stateOf_def)
lemmas res_defs = writeRes_def json_def sendStatus_def sendNumber_def cookie_def clearCookie_def
  status_def res0_def
lemmas ex_defs = exEnv_def exState_def alice_def bob_def carol_def cookieRequest_def
  loginRequest_def signUpRequest_def emptyState_def exConfig_def dotCodec_def
lemmas refresh_defs = handleRefresh_def reuseDetected_def rotation_def rtFindUnique_def
  rtDelete_def rtDeleteMany_def rtCreate_def
lemmas login_defs = handleLogin_def loginTry_def clearSessions_def issueTokens_def
  checkVerified_def truthy_def str_def rtFindUnique_def rtDelete_def rtDeleteMany_def rtCreate_def


lemma write_fresh: "sent r = None \<Longrightarrow> writeRes e f r = Inr (f r)"
  by (simp add: writeRes_def)

lemma write_sent:
  "sent r = Some x \<Longrightarrow> writeRes e f r = (if strictResponse e then Inl HeadersSent else Inr r)"
  by (simp add: writeRes_def)

lemma clearSessions_fresh:
  "sent r = None \<Longrightarrow> clearSessions e jid u r st = Inr (afterClear e jid u r st)"
  by (auto simp add: clearSessions_def afterClear_def rtFindUnique_def rtDelete_def clearCookie_def
      write_fresh split: option.splits)

lemma clearSessions_sent:
  "sent r = Some x \<Longrightarrow>
   (case clearSessions e jid u r st of Inl (y, r', st') \<Rightarrow> r' = r | Inr (r', st') \<Rightarrow> r' = r)"
  by (auto simp add: clearSessions_def rtFindUnique_def rtDelete_def clearCookie_def
      write_sent split: option.splits)

lemma issueTokens_fresh:
  "sent r = None \<Longrightarrow>
   issueTokens e u r st =
     (if writeFails e RefreshTokenTable then Inl (WriteFailed RefreshTokenTable, r, st)
      else (case refreshTokens st (createRefreshToken e (uid u)) of
              Some _ \<Rightarrow> Inl (UniqueViolation RefreshTokenTable, r, st)
            | None \<Rightarrow>
                Inr (r\<lparr>cookieOps := cookieOps r @
                          [SetCookie (refresh_token_cookie_name e) (createRefreshToken e (uid u))],
                       sent := Some (statusCode r, AccessToken (createAccessToken e (uid u)))\<rparr>,
                     st\<lparr>refreshTokens := (refreshTokens st)(createRefreshToken e (uid u) \<mapsto> uid u),
                        logs := logs st @ [Console (createRefreshToken e (uid u)) (uid u)]\<rparr>)))"
  by (simp add: issueTokens_def rtCreate_def cookie_def json_def write_fresh Let_def
      split: option.splits)

lemma issueTokens_sent:
  "sent r = Some x \<Longrightarrow>
   (case issueTokens e u r st of Inl (y, r', st') \<Rightarrow> r' = r | Inr (r', st') \<Rightarrow> r' = r)"
  by (simp add: issueTokens_def rtCreate_def cookie_def json_def write_sent Let_def
      split: option.splits)

lemma loginTry_sent:
  assumes "sent r = Some x"
  shows "sent (resOf (loginTry e req u r st)) = Some x"
proof -
  have c: "case clearSessions e (cookies req ''jid'') u r st of
             Inl (y, r', st') \<Rightarrow> r' = r | Inr (r', st') \<Rightarrow> r' = r"
    using assms by (rule clearSessions_sent)
  have i: "\<And>s. case issueTokens e u r s of Inl (y, r', st') \<Rightarrow> r' = r | Inr (r', st') \<Rightarrow> r' = r"
    using assms by (rule issueTokens_sent)
  show ?thesis
  proof (cases "clearSessions e (cookies req ''jid'') u r st")
    case (Inl t)
    then show ?thesis using assms c
      by (auto simp add: loginTry_def sendStatus_def write_sent split: option.splits)
  next
    case (Inr p)
    obtain r1 st1 where p: "p = (r1, st1)" by (cases p)
    with Inr c have "r1 = r" by simp
    with Inr p show ?thesis using assms i [of st1]
      by (auto simp add: loginTry_def sendStatus_def write_sent split: option.splits sum.splits)
  qed
qed

lemma checkVerified_eq:
  "checkVerified e u res0 =
     (if emailVerified u then Inr res0
      else if strictResponse e
           then Inl (HeadersSent, res0\<lparr>statusCode := 401, sent := Some (401, Text ''Unauthorized'')\<rparr>)
           else Inr (res0\<lparr>statusCode := 401, sent := Some (401, Text ''Unauthorized'')\<rparr>))"
  by (simp add: checkVerified_def res_defs)

lemma loginTry_fresh:
  "sent r = None \<Longrightarrow>
   loginTry e req u r st =
     (case argon2_verify e (password u) (str (bodyPassword req)) of
        None \<Rightarrow> finish (sendStatus e 500 r) r st
      | Some ok \<Rightarrow>
          if ok
          then (case issueTokens e u (fst (afterClear e (cookies req ''jid'') u r st))
                       (snd (afterClear e (cookies req ''jid'') u r st)) of
                  Inl (x, r', st') \<Rightarrow> finish (sendStatus e 500 r') r' st'
                | Inr (r', st') \<Rightarrow> (Returned, r', st'))
          else (Returned, r\<lparr>statusCode := 401, sent := Some (401, Text ''Unauthorized'')\<rparr>, st))"
  by (simp add: loginTry_def clearSessions_fresh sendStatus_def write_fresh
      split: option.splits sum.splits prod.splits)

lemma afterClear_res:
  "sent (fst (afterClear e jid u r st)) = sent r"
  "statusCode (fst (afterClear e jid u r st)) = statusCode r"
  by (simp_all add: afterClear_def split: option.splits)

lemma login_success:
  assumes ok: "sent (resOf (handleLogin e req st)) = Some (200, AccessToken a)"
    and u: "users st (str (bodyEmail req)) = Some u"
  shows "refreshTokens (snd (afterClear e (cookies req ''jid'') u res0 st))
           (createRefreshToken e (uid u)) = None
      \<and> a = createAccessToken e (uid u)
      \<and> handleLogin e req st =
          (Returned,
           (fst (afterClear e (cookies req ''jid'') u res0 st))
             \<lparr>cookieOps := cookieOps (fst (afterClear e (cookies req ''jid'') u res0 st)) @
                 [SetCookie (refresh_token_cookie_name e) (createRefreshToken e (uid u))],
              sent := Some (200, AccessToken a)\<rparr>,
           (snd (afterClear e (cookies req ''jid'') u res0 st))
             \<lparr>refreshTokens := (refreshTokens (snd (afterClear e (cookies req ''jid'') u res0 st)))
                 (createRefreshToken e (uid u) \<mapsto> uid u),
              logs := logs (snd (afterClear e (cookies req ''jid'') u res0 st)) @
                 [Console (createRefreshToken e (uid u)) (uid u)]\<rparr>)"
proof -
  let ?r401 = "res0\<lparr>statusCode := 401, sent := Some (401, Text ''Unauthorized'')\<rparr>"
  have fresh: "sent res0 = None" "statusCode res0 = 200" by (simp_all add: res0_def)
  have t: "truthy (bodyEmail req) \<and> truthy (bodyPassword req)"
    using ok by (auto simp add: handleLogin_def res_defs split: if_splits)
  have v: "emailVerified u"
  proof (rule ccontr)
    assume n: "\<not> emailVerified u"
    have "sent (resOf (loginTry e req u ?r401 st)) = Some (401, Text ''Unauthorized'')"
      by (rule loginTry_sent) simp
    with n t u ok show False
      by (auto simp add: handleLogin_def checkVerified_eq split: if_splits)
  qed
  have h: "handleLogin e req st = loginTry e req u res0 st"
    using t u v by (simp add: handleLogin_def checkVerified_eq)
  obtain r1 st1 where ac: "afterClear e (cookies req ''jid'') u res0 st = (r1, st1)"
    by (cases "afterClear e (cookies req ''jid'') u res0 st")
  have r1: "sent r1 = None" "statusCode r1 = 200"
    using afterClear_res [of e "cookies req ''jid''" u res0 st] by (simp_all add: ac fresh)
  show ?thesis
    using ok
    by (auto simp add: h loginTry_fresh [OF fresh(1)] ac issueTokens_fresh [OF r1(1)] r1
        sendStatus_def write_fresh fresh split: option.splits if_splits)
qed

lemma afterClear_suspicious:
  assumes "jid = Some c" and "c \<noteq> []" and "refreshTokens st c \<noteq> Some (uid u)"
  shows "afterClear e jid u r st =
           (r\<lparr>cookieOps := cookieOps r @ [ClearCookie (refresh_token_cookie_name e)]\<rparr>,
            rtDeleteMany (uid u) st)"
  using assms by (simp add: afterClear_def)

lemma login_suspicious_result:
  assumes ok: "sent (resOf (handleLogin e req st)) = Some (200, AccessToken a)"
    and u: "users st (str (bodyEmail req)) = Some u"
    and c: "cookies req ''jid'' = Some c" and ne: "c \<noteq> []"
    and susp: "refreshTokens st c \<noteq> Some (uid u)"
  shows "refreshTokens (rtDeleteMany (uid u) st) (createRefreshToken e (uid u)) = None
    \<and> handleLogin e req st =
      (Returned,
       \<lparr>statusCode = 200, sent = Some (200, AccessToken (createAccessToken e (uid u))),
        cookieOps = [ClearCookie (refresh_token_cookie_name e),
                     SetCookie (refresh_token_cookie_name e) (createRefreshToken e (uid u))]\<rparr>,
       (rtDeleteMany (uid u) st)
         \<lparr>refreshTokens := (refreshTokens (rtDeleteMany (uid u) st))
             (createRefreshToken e (uid u) \<mapsto> uid u),
          logs := logs (rtDeleteMany (uid u) st) @
             [Console (createRefreshToken e (uid u)) (uid u)]\<rparr>)"
proof -
  note s = login_success [OF ok u]
  note ac = afterClear_suspicious [OF c ne susp, of e res0]
  from s [unfolded ac] show ?thesis by (simp add: res0_def)
qed

subsection \<open>The refresh\<close>

lemma delete_absent:
  "refreshTokens st t = None \<Longrightarrow> st\<lparr>refreshTokens := (refreshTokens st)(t := None)\<rparr> = st"
proof -
  assume "refreshTokens st t = None"
  then have "(refreshTokens st)(t := None) = refreshTokens st" by (simp add: fun_upd_idem)
  then show ?thesis by simp
qed

lemma refresh_found:
  assumes "cookies req (refresh_token_cookie_name e) = Some t" and "t \<noteq> []"
    and "refreshTokens st t = Some owner"
  shows "handleRefresh e req st =
           rotation e t owner (res0\<lparr>cookieOps := [ClearCookie (refresh_token_cookie_name e)]\<rparr>)
             (st\<lparr>refreshTokens := (refreshTokens st)(t := None)\<rparr>)"
  using assms
  by (simp add: handleRefresh_def rtFindUnique_def rtDelete_def clearCookie_def write_fresh res0_def)

lemma refresh_absent:
  assumes "cookies req (refresh_token_cookie_name e) = Some t" and "t \<noteq> []"
    and "refreshTokens st t = None"
  shows "handleRefresh e req st =
           reuseDetected e t (res0\<lparr>cookieOps := [ClearCookie (refresh_token_cookie_name e)]\<rparr>) st"
  using assms
  by (simp add: handleRefresh_def rtFindUnique_def clearCookie_def write_fresh res0_def)

lemma reuseDetected_fresh:
  assumes "sent r = None"
  shows "sent (resOf (reuseDetected e t r st)) = Some (403, Text ''Forbidden'')
    \<and> stateOf (reuseDetected e t r st) =
        (case verify e t of
           None \<Rightarrow> st
         | Some u \<Rightarrow> rtDeleteMany u (st\<lparr>logs := logs st @ [Warn ''attempted refresh token reuse!'']\<rparr>))"
  using assms
  by (simp add: reuseDetected_def sendStatus_def writeRes_def split: option.splits)

lemma rotation_success:
  assumes ok: "sent (resOf (rotation e t owner r st)) = Some (200, AccessToken a)"
    and fresh: "sent r = None"
  shows "verify e t = Some owner \<and> a = createAccessToken e owner
    \<and> resOf (rotation e t owner r st) =
        r\<lparr>cookieOps := cookieOps r @ [SetCookie (refresh_token_cookie_name e) (createRefreshToken e owner)],
          sent := Some (statusCode r, AccessToken a)\<rparr>
    \<and> stateOf (rotation e t owner r st) =
        (case rtCreate e (createRefreshToken e owner) owner st of
           Inl x \<Rightarrow> st\<lparr>logs := logs st @ [Error x]\<rparr>
         | Inr s \<Rightarrow> s)"
  using assms
  by (auto simp add: rotation_def sendStatus_def json_def cookie_def write_fresh Let_def
      split: option.splits if_splits)

lemma refresh_success:
  assumes c: "cookies req (refresh_token_cookie_name e) = Some t"
    and ok: "sent (resOf (handleRefresh e req st)) = Some (200, AccessToken a)"
  shows "t \<noteq> [] \<and> (\<exists>owner. refreshTokens st t = Some owner \<and> verify e t = Some owner
      \<and> a = createAccessToken e owner
      \<and> resOf (handleRefresh e req st) =
          \<lparr>statusCode = 200, sent = Some (200, AccessToken a),
           cookieOps = [ClearCookie (refresh_token_cookie_name e),
                        SetCookie (refresh_token_cookie_name e) (createRefreshToken e owner)]\<rparr>
      \<and> stateOf (handleRefresh e req st) =
          (case rtCreate e (createRefreshToken e owner) owner
                  (st\<lparr>refreshTokens := (refreshTokens st)(t := None)\<rparr>) of
             Inl x \<Rightarrow> st\<lparr>refreshTokens := (refreshTokens st)(t := None),
                         logs := logs st @ [Error x]\<rparr>
           | Inr s \<Rightarrow> s))"
proof -
  let ?r = "res0\<lparr>cookieOps := [ClearCookie (refresh_token_cookie_name e)]\<rparr>"
  have ne: "t \<noteq> []"
    using c ok by (auto simp add: handleRefresh_def sendStatus_def write_fresh res0_def)
  have fr: "sent ?r = None" by (simp add: res0_def)
  show ?thesis
  proof (cases "refreshTokens st t")
    case None
    from reuseDetected_fresh [OF fr, of e t st] ok show ?thesis
      by (simp add: refresh_absent [OF c ne None])
  next
    case (Some owner)
    note eq = refresh_found [OF c ne Some]
    from ok have ok': "sent (resOf (rotation e t owner ?r
        (st\<lparr>refreshTokens := (refreshTokens st)(t := None)\<rparr>))) = Some (200, AccessToken a)"
      by (simp add: eq)
    from rotation_success [OF ok' fr] show ?thesis
      by (auto simp add: ne Some eq res0_def split: sum.splits)
  qed
qed

text \<open>
  Whenever the new session cannot be stored, a refresh that verified answers 200 all the
  same and only logs the error.
\<close>

lemma refresh_insert_failure:
  assumes "cookies req (refresh_token_cookie_name e) = Some t" and "t \<noteq> []"
    and "refreshTokens st t = Some owner" and "verify e t = Some owner"
    and "rtCreate e (createRefreshToken e owner) owner
           (st\<lparr>refreshTokens := (refreshTokens st)(t := None)\<rparr>) = Inl x"
  shows "handleRefresh e req st =
           (Returned,
            \<lparr>statusCode = 200, sent = Some (200, AccessToken (createAccessToken e owner)),
             cookieOps = [ClearCookie (refresh_token_cookie_name e),
                          SetCookie (refresh_token_cookie_name e) (createRefreshToken e owner)]\<rparr>,
            st\<lparr>refreshTokens := (refreshTokens st)(t := None), logs := logs st @ [Error x]\<rparr>)"
  using assms(4,5)
  by (simp add: refresh_found [OF assms(1,2,3)] rotation_def cookie_def json_def write_fresh
      res0_def Let_def)

lemma rtDeleteMany_none: "refreshTokens (rtDeleteMany u st) t \<noteq> Some u"
  by (simp add: rtDeleteMany_def)

subsection \<open>The codec\<close>



lemmas dot_defs = dotSign_def dotUnsign_def codecEnv_def issueRefreshToken_def issueAccessToken_def
  verifyToken_def

subsection \<open>Executions\<close>

text \<open>
  A token that is not in the table stays out of it through every call whose token
  function never returns it: signup does not write the table, logout and the wipes only
  delete, and login and refresh add nothing but the token they mint.
\<close>

lemma signup_keeps_sessions:
  "refreshTokens (stateOf (handleSingUp e req st)) = refreshTokens st"
  by (auto simp add: handleSingUp_def signUpTry_def userCreate_def evtCreate_def res_defs Let_def
      split: option.splits sum.splits prod.splits)

lemma logout_keeps_absent:
  "refreshTokens st t = None \<Longrightarrow> refreshTokens (stateOf (handleLogout e req st)) t = None"
  by (auto simp add: handleLogout_def rtFindUnique_def rtDelete_def res_defs
      split: option.splits)

lemma refresh_keeps_absent:
  assumes "refreshTokens st t = None" and "neverMints e t"
  shows "refreshTokens (stateOf (handleRefresh e req st)) t = None"
  using assms
  by (auto simp add: refresh_defs res_defs neverMints_def Let_def
      split: option.splits sum.splits if_splits)

lemma clearSessions_keeps_absent:
  assumes "refreshTokens st t = None"
  shows "case clearSessions e jid u r st of
           Inl (x, r', st') \<Rightarrow> refreshTokens st' t = None
         | Inr (r', st') \<Rightarrow> refreshTokens st' t = None"
  using assms
  by (auto simp add: clearSessions_def rtFindUnique_def rtDelete_def rtDeleteMany_def
      clearCookie_def writeRes_def split: option.splits)

lemma issueTokens_keeps_absent:
  assumes "refreshTokens st t = None" and "neverMints e t"
  shows "case issueTokens e u r st of
           Inl (x, r', st') \<Rightarrow> refreshTokens st' t = None
         | Inr (r', st') \<Rightarrow> refreshTokens st' t = None"
  using assms
  by (auto simp add: issueTokens_def rtCreate_def cookie_def json_def writeRes_def Let_def
      neverMints_def split: option.splits)

lemma finish_state: "stateOf (finish x r st) = st"
  by (cases x) simp_all

lemma loginTry_keeps_absent:
  assumes a: "refreshTokens st t = None" and m: "neverMints e t"
  shows "refreshTokens (stateOf (loginTry e req u r st)) t = None"
proof (cases "clearSessions e (cookies req ''jid'') u r st")
  case (Inl p)
  with clearSessions_keeps_absent [OF a, of e "cookies req ''jid''" u r] a
  show ?thesis
    by (auto simp add: loginTry_def finish_state split: option.splits sum.splits prod.splits)
next
  case (Inr p)
  obtain r1 st1 where p: "p = (r1, st1)" by (cases p)
  from clearSessions_keeps_absent [OF a, of e "cookies req ''jid''" u r] Inr p
  have a1: "refreshTokens st1 t = None" by simp
  from issueTokens_keeps_absent [OF a1 m, of u r1] Inr p a
  show ?thesis
    by (auto simp add: loginTry_def finish_state split: option.splits sum.splits prod.splits)
qed

lemma login_keeps_absent:
  assumes "refreshTokens st t = None" and "neverMints e t"
  shows "refreshTokens (stateOf (handleLogin e req st)) t = None"
  using assms loginTry_keeps_absent [OF assms]
  by (auto simp add: handleLogin_def finish_state split: option.splits sum.splits prod.splits)

lemma step_keeps_absent:
  assumes "refreshTokens st t = None" and "neverMints (envOf c) t"
  shows "refreshTokens (step c st) t = None"
  using assms
  by (cases c)
    (simp_all add: signup_keeps_sessions logout_keeps_absent login_keeps_absent refresh_keeps_absent)

lemma run_keeps_absent:
  assumes "\<forall>c \<in> set cs. neverMints (envOf c) t" and "refreshTokens st t = None"
  shows "refreshTokens (run cs st) t = None"
  using assms
  by (induction cs arbitrary: st) (simp_all add: step_keeps_absent)

text \<open>
  The check of the verified flag does not return. With a response that ignores a write
  after it has been sent, the login of carol goes on after the 401: her session is deleted
  and a new one is stored, while the client has the 401.
\<close>

lemma login_unverified_tolerant:
  "sent (resOf (handleLogin (exEnv\<lparr>strictResponse := False\<rparr>)
                  (loginRequest ''carol@x.org'' ''pwC'' (Some ''stale'')) exState))
     = Some (401, Text ''Unauthorized'')
   \<and> refreshTokens (stateOf (handleLogin (exEnv\<lparr>strictResponse := False\<rparr>)
                  (loginRequest ''carol@x.org'' ''pwC'' (Some ''stale'')) exState)) ''fresh-u3'' = Some ''u3''
   \<and> refreshTokens (stateOf (handleLogin (exEnv\<lparr>strictResponse := False\<rparr>)
                  (loginRequest ''carol@x.org'' ''pwC'' (Some ''stale'')) exState)) ''RC'' = None"
  by (simp add: login_defs res_defs ex_defs Let_def)

section \<open>The refresh handler\<close>

text \<open>
  C7. A refresh whose token is not in the table and does not verify is answered 403
  Forbidden and leaves the whole state as it was: no session is deleted. The response is
  the same as the response to a replayed token that verifies.
\<close>

theorem refresh_unknown_unverified:
  assumes "cookies req (refresh_token_cookie_name e) = Some t" and "t \<noteq> []"
    and "refreshTokens st t = None" and "verify e t = None"
    and "refresh_token_cookie_name e' = refresh_token_cookie_name e" and "verify e' t = Some u"
  shows "stateOf (handleRefresh e req st) = st
    \<and> sent (resOf (handleRefresh e req st)) = Some (403, Text ''Forbidden'')
    \<and> resOf (handleRefresh e req st) = resOf (handleRefresh e' req st)"
  using assms
  by (simp add: handleRefresh_def reuseDetected_def rtFindUnique_def res_defs)

theorem refresh_unknown_unverified_witness:
  "cookies (cookieRequest ''junk'') (refresh_token_cookie_name exEnv) = Some ''junk''
   \<and> ''junk'' \<noteq> []
   \<and> refreshTokens exState ''junk'' = None \<and> verify exEnv ''junk'' = None
   \<and> verify (exEnv\<lparr>verify := (\<lambda>t. Some ''u1'')\<rparr>) ''junk'' = Some ''u1''
   \<and> stateOf (handleRefresh exEnv (cookieRequest ''junk'') exState) = exState
   \<and> sent (resOf (handleRefresh exEnv (cookieRequest ''junk'') exState)) = Some (403, Text ''Forbidden'')
   \<and> resOf (handleRefresh exEnv (cookieRequest ''junk'') exState)
       = resOf (handleRefresh (exEnv\<lparr>verify := (\<lambda>t. Some ''u1'')\<rparr>) (cookieRequest ''junk'') exState)"
proof -
  let ?e' = "exEnv\<lparr>verify := (\<lambda>t. Some ''u1'')\<rparr>"
  have h1: "cookies (cookieRequest ''junk'') (refresh_token_cookie_name exEnv) = Some ''junk''"
    by (simp add: ex_defs)
  have h2: "''junk'' \<noteq> []" by simp
  have h3: "refreshTokens exState ''junk'' = None" by (simp add: ex_defs)
  have h4: "verify exEnv ''junk'' = None" by (simp add: ex_defs)
  have h5: "refresh_token_cookie_name ?e' = refresh_token_cookie_name exEnv" by simp
  have h6: "verify ?e' ''junk'' = Some ''u1''" by simp
  from refresh_unknown_unverified [OF h1 h2 h3 h4 h5 h6] h1 h2 h3 h4 h6
  show ?thesis by blast
qed

text \<open>
  C5. When the token of a refresh is in the table, the handler is the callback of
  \<^verbatim>\<open>verify\<close> run on the state from which the session has already been deleted: the
  session is consumed before anything is minted. If the token does not verify to the
  owner recorded in the session (an error, or another subject), the answer is 403
  Forbidden and the state is the old one without the session.
\<close>

theorem refresh_consumes_first:
  assumes "cookies req (refresh_token_cookie_name e) = Some t" and "t \<noteq> []"
    and "refreshTokens st t = Some owner"
  shows "handleRefresh e req st =
           rotation e t owner (res0\<lparr>cookieOps := [ClearCookie (refresh_token_cookie_name e)]\<rparr>)
             (st\<lparr>refreshTokens := (refreshTokens st)(t := None)\<rparr>)
    \<and> (verify e t \<noteq> Some owner \<longrightarrow>
         handleRefresh e req st =
           (Returned,
            \<lparr>statusCode = 403, sent = Some (403, Text ''Forbidden''),
             cookieOps = [ClearCookie (refresh_token_cookie_name e)]\<rparr>,
            st\<lparr>refreshTokens := (refreshTokens st)(t := None)\<rparr>))"
  using assms
  by (auto simp add: handleRefresh_def rotation_def rtFindUnique_def rtDelete_def res_defs
      split: option.splits)

theorem refresh_consumes_first_witness:
  "cookies (cookieRequest ''RB'') (refresh_token_cookie_name (exEnv\<lparr>verify := (\<lambda>t. Some ''u1'')\<rparr>)) = Some ''RB''
   \<and> refreshTokens exState ''RB'' = Some ''u2''
   \<and> verify (exEnv\<lparr>verify := (\<lambda>t. Some ''u1'')\<rparr>) ''RB'' \<noteq> Some ''u2''
   \<and> handleRefresh (exEnv\<lparr>verify := (\<lambda>t. Some ''u1'')\<rparr>) (cookieRequest ''RB'') exState =
       (Returned,
        \<lparr>statusCode = 403, sent = Some (403, Text ''Forbidden''),
         cookieOps = [ClearCookie (refresh_token_cookie_name (exEnv\<lparr>verify := (\<lambda>t. Some ''u1'')\<rparr>))]\<rparr>,
        exState\<lparr>refreshTokens := (refreshTokens exState)(''RB'' := None)\<rparr>)
   \<and> refreshTokens (stateOf (handleRefresh (exEnv\<lparr>verify := (\<lambda>t. Some ''u1'')\<rparr>) (cookieRequest ''RB'') exState)) ''RB'' = None"
proof -
  let ?e = "exEnv\<lparr>verify := (\<lambda>t. Some ''u1'')\<rparr>"
  have h1: "cookies (cookieRequest ''RB'') (refresh_token_cookie_name ?e) = Some ''RB''"
    by (simp add: ex_defs)
  have h2: "''RB'' \<noteq> []" by simp
  have h3: "refreshTokens exState ''RB'' = Some ''u2''" by (simp add: ex_defs)
  have h4: "verify ?e ''RB'' \<noteq> Some ''u2''" by simp
  from refresh_consumes_first [OF h1 h2 h3] h4
  have r: "handleRefresh ?e (cookieRequest ''RB'') exState =
       (Returned,
        \<lparr>statusCode = 403, sent = Some (403, Text ''Forbidden''),
         cookieOps = [ClearCookie (refresh_token_cookie_name ?e)]\<rparr>,
        exState\<lparr>refreshTokens := (refreshTokens exState)(''RB'' := None)\<rparr>)"
    by blast
  have "refreshTokens (stateOf (handleRefresh ?e (cookieRequest ''RB'') exState)) ''RB'' = None"
    by (simp add: r)
  with r h1 h3 h4 show ?thesis by blast
qed

text \<open>
  C1. A refresh of alice's session \<^verbatim>\<open>RA\<close> when the \<^verbatim>\<open>create\<close> of the new session fails in
  the store: the error is logged, and the response is still 200 with the access token and
  a cookie that holds the new refresh token, which is not in the table.
\<close>

theorem refresh_insert_failure_still_answers:
  "outOf (handleRefresh (exEnv\<lparr>writeFails := (\<lambda>_. True)\<rparr>) (cookieRequest ''RA'') exState) = Returned
   \<and> resOf (handleRefresh (exEnv\<lparr>writeFails := (\<lambda>_. True)\<rparr>) (cookieRequest ''RA'') exState) =
       \<lparr>statusCode = 200, sent = Some (200, AccessToken ''access-u1''),
        cookieOps = [ClearCookie ''jid'', SetCookie ''jid'' ''fresh-u1'']\<rparr>
   \<and> refreshTokens (stateOf (handleRefresh (exEnv\<lparr>writeFails := (\<lambda>_. True)\<rparr>) (cookieRequest ''RA'') exState))
        ''fresh-u1'' = None
   \<and> refreshTokens (stateOf (handleRefresh (exEnv\<lparr>writeFails := (\<lambda>_. True)\<rparr>) (cookieRequest ''RA'') exState))
        ''RA'' = None
   \<and> logs (stateOf (handleRefresh (exEnv\<lparr>writeFails := (\<lambda>_. True)\<rparr>) (cookieRequest ''RA'') exState))
        = [Error (WriteFailed RefreshTokenTable)]"
  by (simp add: refresh_defs res_defs ex_defs Let_def)

text \<open>
  C4, as amended. Take a refresh that succeeded with the token \<open>t\<close> and did not mint
  \<open>t\<close> again, then any list of calls of the four handlers none of which mints \<open>t\<close>, then
  a refresh with \<open>t\<close>. The token is not in the table any more, the last refresh is
  answered 403 Forbidden and rotates nothing. It deletes the sessions of the subject that
  \<open>t\<close> verifies to at that time, so that no session of the owner is left when \<open>t\<close> still
  verifies to the owner, and it leaves the state as it is when \<open>t\<close> does not verify any
  more.
\<close>

theorem replay_after_rotation:
  assumes c: "cookies req (refresh_token_cookie_name e) = Some t"
    and own: "refreshTokens st t = Some owner"
    and ok: "sent (resOf (handleRefresh e req st)) = Some (200, AccessToken a)"
    and new: "createRefreshToken e owner \<noteq> t"
    and later: "\<forall>c \<in> set cs. neverMints (envOf c) t"
    and c': "cookies req' (refresh_token_cookie_name e') = Some t"
  shows "verify e t = Some owner
    \<and> refreshTokens (run cs (stateOf (handleRefresh e req st))) t = None
    \<and> sent (resOf (handleRefresh e' req' (run cs (stateOf (handleRefresh e req st)))))
        = Some (403, Text ''Forbidden'')
    \<and> stateOf (handleRefresh e' req' (run cs (stateOf (handleRefresh e req st)))) =
        (case verify e' t of
           None \<Rightarrow> run cs (stateOf (handleRefresh e req st))
         | Some u \<Rightarrow>
             rtDeleteMany u
               ((run cs (stateOf (handleRefresh e req st)))
                  \<lparr>logs := logs (run cs (stateOf (handleRefresh e req st)))
                            @ [Warn ''attempted refresh token reuse!'']\<rparr>))
    \<and> (verify e' t = Some owner \<longrightarrow>
         (\<forall>t'. refreshTokens (stateOf (handleRefresh e' req'
                   (run cs (stateOf (handleRefresh e req st))))) t' \<noteq> Some owner))"
proof -
  let ?st2 = "run cs (stateOf (handleRefresh e req st))"
  from refresh_success [OF c ok] own
  have ne: "t \<noteq> []" and v: "verify e t = Some owner"
    and st1: "stateOf (handleRefresh e req st) =
          (case rtCreate e (createRefreshToken e owner) owner
                  (st\<lparr>refreshTokens := (refreshTokens st)(t := None)\<rparr>) of
             Inl x \<Rightarrow> st\<lparr>refreshTokens := (refreshTokens st)(t := None),
                         logs := logs st @ [Error x]\<rparr>
           | Inr s \<Rightarrow> s)"
    by auto
  have gone: "refreshTokens (stateOf (handleRefresh e req st)) t = None"
    using new by (simp add: st1 rtCreate_def split: option.splits)
  have absent: "refreshTokens ?st2 t = None"
    using later gone by (rule run_keeps_absent)
  have fr: "sent (res0\<lparr>cookieOps := [ClearCookie (refresh_token_cookie_name e')]\<rparr>) = None"
    by (simp add: res0_def)
  note eq = refresh_absent [OF c' ne absent]
  note rd = reuseDetected_fresh [OF fr, of e' t ?st2]
  have forb: "sent (resOf (handleRefresh e' req' ?st2)) = Some (403, Text ''Forbidden'')"
    using rd by (simp add: eq)
  have st3: "stateOf (handleRefresh e' req' ?st2) =
        (case verify e' t of
           None \<Rightarrow> ?st2
         | Some u \<Rightarrow>
             rtDeleteMany u (?st2\<lparr>logs := logs ?st2 @ [Warn ''attempted refresh token reuse!'']\<rparr>))"
    using rd by (simp add: eq)
  have wipe: "refreshTokens (stateOf (handleRefresh e' req' ?st2)) t' \<noteq> Some owner"
    if "verify e' t = Some owner" for t'
    using that by (simp add: st3 rtDeleteMany_none)
  from v absent forb st3 wipe show ?thesis by blast
qed

theorem replay_after_rotation_witness:
  "cookies (cookieRequest ''RA'') (refresh_token_cookie_name exEnv) = Some ''RA''
   \<and> refreshTokens exState ''RA'' = Some ''u1''
   \<and> sent (resOf (handleRefresh exEnv (cookieRequest ''RA'') exState)) = Some (200, AccessToken ''access-u1'')
   \<and> createRefreshToken exEnv ''u1'' \<noteq> ''RA''
   \<and> neverMints exEnv ''RA''
   \<and> verify exEnv ''RA'' = Some ''u1''
   \<and> refreshTokens
        (run [Login exEnv (loginRequest ''bob@x.org'' ''pwB'' None), Logout exEnv (cookieRequest ''RC'')]
           (stateOf (handleRefresh exEnv (cookieRequest ''RA'') exState))) ''RA'' = None
   \<and> sent (resOf (handleRefresh exEnv (cookieRequest ''RA'')
        (run [Login exEnv (loginRequest ''bob@x.org'' ''pwB'' None), Logout exEnv (cookieRequest ''RC'')]
           (stateOf (handleRefresh exEnv (cookieRequest ''RA'') exState)))))
       = Some (403, Text ''Forbidden'')
   \<and> refreshTokens (stateOf (handleRefresh exEnv (cookieRequest ''RA'')
        (run [Login exEnv (loginRequest ''bob@x.org'' ''pwB'' None), Logout exEnv (cookieRequest ''RC'')]
           (stateOf (handleRefresh exEnv (cookieRequest ''RA'') exState))))) ''fresh-u1'' \<noteq> Some ''u1''"
proof -
  let ?req = "cookieRequest ''RA''"
  let ?cs = "[Login exEnv (loginRequest ''bob@x.org'' ''pwB'' None), Logout exEnv (cookieRequest ''RC'')]"
  have h1: "cookies ?req (refresh_token_cookie_name exEnv) = Some ''RA''" by (simp add: ex_defs)
  have h2: "refreshTokens exState ''RA'' = Some ''u1''" by (simp add: ex_defs)
  have h3: "sent (resOf (handleRefresh exEnv ?req exState)) = Some (200, AccessToken ''access-u1'')"
    by (simp add: refresh_defs res_defs ex_defs Let_def)
  have h4: "createRefreshToken exEnv ''u1'' \<noteq> ''RA''" by (simp add: ex_defs)
  have m: "neverMints exEnv ''RA''" by (simp add: neverMints_def ex_defs)
  then have h5: "\<forall>c \<in> set ?cs. neverMints (envOf c) ''RA''" by simp
  have h6: "verify exEnv ''RA'' = Some ''u1''" by (simp add: ex_defs)
  from replay_after_rotation [OF h1 h2 h3 h4 h5 h1] h1 h2 h3 h4 m h6
  show ?thesis by blast
qed

text \<open>
  C4 as stated fails in two ways. When the token has expired by the time of the replay,
  the replay is answered 403 and the session that the first refresh made for the owner is
  still in the table. When the first refresh mints the token it was given, as the codec
  does at the clock reading at which the token was minted, the token is stored again and
  the replay is answered 200: it rotates once more.
\<close>

theorem replay_counterexample:
  "sent (resOf (handleRefresh exEnv (cookieRequest ''RA'') exState)) = Some (200, AccessToken ''access-u1'')
   \<and> refreshTokens (stateOf (handleRefresh exEnv (cookieRequest ''RA'') exState)) ''fresh-u1'' = Some ''u1''
   \<and> sent (resOf (handleRefresh (exEnv\<lparr>verify := (\<lambda>t. None)\<rparr>) (cookieRequest ''RA'')
        (stateOf (handleRefresh exEnv (cookieRequest ''RA'') exState)))) = Some (403, Text ''Forbidden'')
   \<and> refreshTokens (stateOf (handleRefresh (exEnv\<lparr>verify := (\<lambda>t. None)\<rparr>) (cookieRequest ''RA'')
        (stateOf (handleRefresh exEnv (cookieRequest ''RA'') exState)))) ''fresh-u1'' = Some ''u1''
   \<and> refreshTokens (exState\<lparr>refreshTokens := [''rs.u1.1111'' \<mapsto> ''u1'']\<rparr>) ''rs.u1.1111'' = Some ''u1''
   \<and> sent (resOf (handleRefresh (codecEnv dotCodec exConfig 1 exEnv) (cookieRequest ''rs.u1.1111'')
        (exState\<lparr>refreshTokens := [''rs.u1.1111'' \<mapsto> ''u1'']\<rparr>))) = Some (200, AccessToken ''as.u1.11'')
   \<and> cookieOps (resOf (handleRefresh (codecEnv dotCodec exConfig 1 exEnv) (cookieRequest ''rs.u1.1111'')
        (exState\<lparr>refreshTokens := [''rs.u1.1111'' \<mapsto> ''u1'']\<rparr>)))
       = [ClearCookie ''jid'', SetCookie ''jid'' ''rs.u1.1111'']
   \<and> sent (resOf (handleRefresh (codecEnv dotCodec exConfig 1 exEnv) (cookieRequest ''rs.u1.1111'')
        (stateOf (handleRefresh (codecEnv dotCodec exConfig 1 exEnv) (cookieRequest ''rs.u1.1111'')
           (exState\<lparr>refreshTokens := [''rs.u1.1111'' \<mapsto> ''u1'']\<rparr>)))))
       = Some (200, AccessToken ''as.u1.11'')"
  by (simp add: refresh_defs res_defs ex_defs dot_defs Let_def numeral_eq_Suc)




section \<open>The login handler\<close>

text \<open>
  C6. A login that succeeds with a cookie \<^verbatim>\<open>jid\<close> that is not a session of the user
  (it is not in the table, or it is another user's) deletes all sessions of the user and
  then stores the new one; the response clears the refresh-token cookie before it sets the
  new one.
\<close>

theorem login_suspicious_cookie_wipes:
  assumes ok: "sent (resOf (handleLogin e req st)) = Some (200, AccessToken a)"
    and u: "users st (str (bodyEmail req)) = Some u"
    and c: "cookies req ''jid'' = Some c" and ne: "c \<noteq> []"
    and susp: "refreshTokens st c \<noteq> Some (uid u)"
  shows "outOf (handleLogin e req st) = Returned
    \<and> refreshTokens (stateOf (handleLogin e req st)) =
        (\<lambda>t. if t = createRefreshToken e (uid u) then Some (uid u)
             else if refreshTokens st t = Some (uid u) then None
             else refreshTokens st t)
    \<and> resOf (handleLogin e req st) =
        \<lparr>statusCode = 200, sent = Some (200, AccessToken (createAccessToken e (uid u))),
         cookieOps = [ClearCookie (refresh_token_cookie_name e),
                      SetCookie (refresh_token_cookie_name e) (createRefreshToken e (uid u))]\<rparr>"
proof -
  from login_suspicious_result [OF ok u c ne susp]
  have h: "handleLogin e req st =
      (Returned,
       \<lparr>statusCode = 200, sent = Some (200, AccessToken (createAccessToken e (uid u))),
        cookieOps = [ClearCookie (refresh_token_cookie_name e),
                     SetCookie (refresh_token_cookie_name e) (createRefreshToken e (uid u))]\<rparr>,
       (rtDeleteMany (uid u) st)
         \<lparr>refreshTokens := (refreshTokens (rtDeleteMany (uid u) st))
             (createRefreshToken e (uid u) \<mapsto> uid u),
          logs := logs (rtDeleteMany (uid u) st) @
             [Console (createRefreshToken e (uid u)) (uid u)]\<rparr>)"
    by blast
  show ?thesis
    by (auto simp add: h rtDeleteMany_def)
qed

theorem login_suspicious_cookie_wipes_witness:
  "sent (resOf (handleLogin exEnv (loginRequest ''alice@x.org'' ''pwA'' (Some ''stale'')) exState))
     = Some (200, AccessToken ''access-u1'')
   \<and> users exState (str (bodyEmail (loginRequest ''alice@x.org'' ''pwA'' (Some ''stale'')))) = Some alice
   \<and> cookies (loginRequest ''alice@x.org'' ''pwA'' (Some ''stale'')) ''jid'' = Some ''stale''
   \<and> refreshTokens exState ''stale'' \<noteq> Some (uid alice)
   \<and> outOf (handleLogin exEnv (loginRequest ''alice@x.org'' ''pwA'' (Some ''stale'')) exState) = Returned
   \<and> refreshTokens (stateOf (handleLogin exEnv (loginRequest ''alice@x.org'' ''pwA'' (Some ''stale'')) exState)) =
        (\<lambda>t. if t = createRefreshToken exEnv (uid alice) then Some (uid alice)
             else if refreshTokens exState t = Some (uid alice) then None
             else refreshTokens exState t)
   \<and> resOf (handleLogin exEnv (loginRequest ''alice@x.org'' ''pwA'' (Some ''stale'')) exState) =
        \<lparr>statusCode = 200, sent = Some (200, AccessToken (createAccessToken exEnv (uid alice))),
         cookieOps = [ClearCookie (refresh_token_cookie_name exEnv),
                      SetCookie (refresh_token_cookie_name exEnv) (createRefreshToken exEnv (uid alice))]\<rparr>"
proof -
  let ?req = "loginRequest ''alice@x.org'' ''pwA'' (Some ''stale'')"
  have h1: "sent (resOf (handleLogin exEnv ?req exState)) = Some (200, AccessToken ''access-u1'')"
    by (simp add: login_defs res_defs ex_defs Let_def)
  have h2: "users exState (str (bodyEmail ?req)) = Some alice"
    by (simp add: ex_defs str_def)
  have h3: "cookies ?req ''jid'' = Some ''stale''" by (simp add: ex_defs)
  have h4: "''stale'' \<noteq> []" by simp
  have h5: "refreshTokens exState ''stale'' \<noteq> Some (uid alice)" by (simp add: ex_defs)
  from login_suspicious_cookie_wipes [OF h1 h2 h3 h4 h5] h1 h2 h3 h5
  show ?thesis by blast
qed

text \<open>
  C3, as amended. A login of a user that succeeds with a cookie \<^verbatim>\<open>jid\<close> which is a
  session of another user deletes the sessions that the user had, and no session of anyone
  else: the session of the cookie stays. The new refresh token is stored for the user, and
  the response carries the access token and sets the cookie to the new refresh token.
\<close>

theorem login_foreign_cookie:
  assumes ok: "sent (resOf (handleLogin e req st)) = Some (200, AccessToken a)"
    and u: "users st (str (bodyEmail req)) = Some u"
    and c: "cookies req ''jid'' = Some c" and ne: "c \<noteq> []"
    and b: "refreshTokens st c = Some b" and other: "b \<noteq> uid u"
  shows "(\<forall>t. refreshTokens st t = Some (uid u) \<and> t \<noteq> createRefreshToken e (uid u)
            \<longrightarrow> refreshTokens (stateOf (handleLogin e req st)) t = None)
    \<and> (\<forall>t w. refreshTokens st t = Some w \<and> w \<noteq> uid u
            \<longrightarrow> refreshTokens (stateOf (handleLogin e req st)) t = Some w)
    \<and> refreshTokens (stateOf (handleLogin e req st)) c = Some b
    \<and> refreshTokens (stateOf (handleLogin e req st)) (createRefreshToken e (uid u)) = Some (uid u)
    \<and> resOf (handleLogin e req st) =
        \<lparr>statusCode = 200, sent = Some (200, AccessToken (createAccessToken e (uid u))),
         cookieOps = [ClearCookie (refresh_token_cookie_name e),
                      SetCookie (refresh_token_cookie_name e) (createRefreshToken e (uid u))]\<rparr>"
proof -
  have susp: "refreshTokens st c \<noteq> Some (uid u)" using b other by simp
  from login_suspicious_result [OF ok u c ne susp]
  have free: "refreshTokens (rtDeleteMany (uid u) st) (createRefreshToken e (uid u)) = None"
    and h: "handleLogin e req st =
      (Returned,
       \<lparr>statusCode = 200, sent = Some (200, AccessToken (createAccessToken e (uid u))),
        cookieOps = [ClearCookie (refresh_token_cookie_name e),
                     SetCookie (refresh_token_cookie_name e) (createRefreshToken e (uid u))]\<rparr>,
       (rtDeleteMany (uid u) st)
         \<lparr>refreshTokens := (refreshTokens (rtDeleteMany (uid u) st))
             (createRefreshToken e (uid u) \<mapsto> uid u),
          logs := logs (rtDeleteMany (uid u) st) @
             [Console (createRefreshToken e (uid u)) (uid u)]\<rparr>)"
    by blast+
  have others: "refreshTokens (stateOf (handleLogin e req st)) t = Some w"
    if "refreshTokens st t = Some w" and "w \<noteq> uid u" for t w
  proof -
    from that have "refreshTokens (rtDeleteMany (uid u) st) t = Some w"
      by (simp add: rtDeleteMany_def)
    with free have "t \<noteq> createRefreshToken e (uid u)" by auto
    with that show ?thesis by (simp add: h rtDeleteMany_def)
  qed
  have own: "refreshTokens (stateOf (handleLogin e req st)) t = None"
    if "refreshTokens st t = Some (uid u)" and "t \<noteq> createRefreshToken e (uid u)" for t
    using that by (simp add: h rtDeleteMany_def)
  have new: "refreshTokens (stateOf (handleLogin e req st)) (createRefreshToken e (uid u)) = Some (uid u)"
    by (simp add: h)
  have res: "resOf (handleLogin e req st) =
        \<lparr>statusCode = 200, sent = Some (200, AccessToken (createAccessToken e (uid u))),
         cookieOps = [ClearCookie (refresh_token_cookie_name e),
                      SetCookie (refresh_token_cookie_name e) (createRefreshToken e (uid u))]\<rparr>"
    by (simp add: h)
  from others [OF b other] others own new res show ?thesis by blast
qed

theorem login_foreign_cookie_witness:
  "sent (resOf (handleLogin exEnv (loginRequest ''bob@x.org'' ''pwB'' (Some ''RA'')) exState))
     = Some (200, AccessToken ''access-u2'')
   \<and> users exState (str (bodyEmail (loginRequest ''bob@x.org'' ''pwB'' (Some ''RA'')))) = Some bob
   \<and> cookies (loginRequest ''bob@x.org'' ''pwB'' (Some ''RA'')) ''jid'' = Some ''RA''
   \<and> refreshTokens exState ''RA'' = Some ''u1'' \<and> ''u1'' \<noteq> uid bob
   \<and> refreshTokens exState ''RB'' = Some (uid bob) \<and> ''RB'' \<noteq> createRefreshToken exEnv (uid bob)
   \<and> refreshTokens exState ''RC'' = Some ''u3'' \<and> ''u3'' \<noteq> uid bob
   \<and> refreshTokens (stateOf (handleLogin exEnv (loginRequest ''bob@x.org'' ''pwB'' (Some ''RA'')) exState)) ''RB'' = None
   \<and> refreshTokens (stateOf (handleLogin exEnv (loginRequest ''bob@x.org'' ''pwB'' (Some ''RA'')) exState)) ''RA'' = Some ''u1''
   \<and> refreshTokens (stateOf (handleLogin exEnv (loginRequest ''bob@x.org'' ''pwB'' (Some ''RA'')) exState)) ''RC'' = Some ''u3''
   \<and> refreshTokens (stateOf (handleLogin exEnv (loginRequest ''bob@x.org'' ''pwB'' (Some ''RA'')) exState))
        (createRefreshToken exEnv (uid bob)) = Some (uid bob)"
proof -
  let ?req = "loginRequest ''bob@x.org'' ''pwB'' (Some ''RA'')"
  have h1: "sent (resOf (handleLogin exEnv ?req exState)) = Some (200, AccessToken ''access-u2'')"
    by (simp add: login_defs res_defs ex_defs Let_def)
  have h2: "users exState (str (bodyEmail ?req)) = Some bob" by (simp add: ex_defs str_def)
  have h3: "cookies ?req ''jid'' = Some ''RA''" by (simp add: ex_defs)
  have h4: "''RA'' \<noteq> []" by simp
  have h5: "refreshTokens exState ''RA'' = Some ''u1''" by (simp add: ex_defs)
  have h6: "''u1'' \<noteq> uid bob" by (simp add: ex_defs)
  have h7: "refreshTokens exState ''RB'' = Some (uid bob)" by (simp add: ex_defs)
  have h8: "''RB'' \<noteq> createRefreshToken exEnv (uid bob)" by (simp add: ex_defs)
  have h9: "refreshTokens exState ''RC'' = Some ''u3''" by (simp add: ex_defs)
  have h10: "''u3'' \<noteq> uid bob" by (simp add: ex_defs)
  from login_foreign_cookie [OF h1 h2 h3 h4 h5 h6] h1 h2 h3 h5 h6 h7 h8 h9 h10
  show ?thesis by blast
qed

text \<open>
  C3 as stated fails: alice logs in with bob's session \<^verbatim>\<open>RB\<close> in the cookie; bob's
  session is still there afterwards and alice's session \<^verbatim>\<open>RA\<close> is gone.
\<close>

theorem login_foreign_cookie_counterexample:
  "sent (resOf (handleLogin exEnv (loginRequest ''alice@x.org'' ''pwA'' (Some ''RB'')) exState))
     = Some (200, AccessToken ''access-u1'')
   \<and> refreshTokens exState ''RB'' = Some ''u2''
   \<and> refreshTokens (stateOf (handleLogin exEnv (loginRequest ''alice@x.org'' ''pwA'' (Some ''RB'')) exState)) ''RB''
       = Some ''u2''
   \<and> refreshTokens exState ''RA'' = Some ''u1''
   \<and> refreshTokens (stateOf (handleLogin exEnv (loginRequest ''alice@x.org'' ''pwA'' (Some ''RB'')) exState)) ''RA''
       = None"
  by (simp add: login_defs res_defs ex_defs Let_def)

text \<open>
  C2, as amended. A login for a user whose email is not verified, with a response that
  raises on a write after it has been sent, as the response of Express does: the state is
  left as it was, no cookie is set and no access token is sent. The answer is 401
  Unauthorized when the request carries an email and a password, and the handler ends
  there on the exception of the second write of line 117, before its \<^verbatim>\<open>try\<close> block; the
  answer is 400 when the email or the password is missing, since the fields are checked
  before the user is looked up.
\<close>

theorem login_unverified:
  assumes strict: "strictResponse e"
    and u: "users st (str (bodyEmail req)) = Some u"
    and nv: "\<not> emailVerified u"
  shows "stateOf (handleLogin e req st) = st
    \<and> cookieOps (resOf (handleLogin e req st)) = []
    \<and> sent (resOf (handleLogin e req st)) =
        Some (if truthy (bodyEmail req) \<and> truthy (bodyPassword req)
              then (401, Text ''Unauthorized'')
              else (400, Message ''Email and password are required!''))
    \<and> outOf (handleLogin e req st) =
        (if truthy (bodyEmail req) \<and> truthy (bodyPassword req)
         then Rejected HeadersSent else Returned)"
  using assms unfolding handleLogin_def checkVerified_eq by (simp add: res_defs)

theorem login_unverified_witness:
  "strictResponse exEnv
   \<and> users exState (str (bodyEmail (loginRequest ''carol@x.org'' ''pwC'' (Some ''stale'')))) = Some carol
   \<and> \<not> emailVerified carol
   \<and> stateOf (handleLogin exEnv (loginRequest ''carol@x.org'' ''pwC'' (Some ''stale'')) exState) = exState
   \<and> cookieOps (resOf (handleLogin exEnv (loginRequest ''carol@x.org'' ''pwC'' (Some ''stale'')) exState)) = []
   \<and> sent (resOf (handleLogin exEnv (loginRequest ''carol@x.org'' ''pwC'' (Some ''stale'')) exState))
       = Some (401, Text ''Unauthorized'')"
proof -
  let ?req = "loginRequest ''carol@x.org'' ''pwC'' (Some ''stale'')"
  have h1: "strictResponse exEnv" by (simp add: ex_defs)
  have h2: "users exState (str (bodyEmail ?req)) = Some carol" by (simp add: ex_defs str_def)
  have h3: "\<not> emailVerified carol" by (simp add: ex_defs)
  have t: "truthy (bodyEmail ?req) \<and> truthy (bodyPassword ?req)" by (simp add: ex_defs truthy_def)
  from login_unverified [OF h1 h2 h3] h1 h2 h3 t show ?thesis by simp
qed

text \<open>
  C2 as stated fails for a request with carol's email and no password: carol exists and is
  not verified, and the answer is 400, not 401 Unauthorized.
\<close>

theorem login_unverified_counterexample:
  "users exState (str (bodyEmail
       \<lparr>cookies = Map.empty, bodyUsername = None, bodyEmail = Some ''carol@x.org'', bodyPassword = None\<rparr>))
     = Some carol
   \<and> \<not> emailVerified carol
   \<and> sent (resOf (handleLogin exEnv
       \<lparr>cookies = Map.empty, bodyUsername = None, bodyEmail = Some ''carol@x.org'', bodyPassword = None\<rparr>
       exState)) = Some (400, Message ''Email and password are required!'')
   \<and> sent (resOf (handleLogin exEnv
       \<lparr>cookies = Map.empty, bodyUsername = None, bodyEmail = Some ''carol@x.org'', bodyPassword = None\<rparr>
       exState)) \<noteq> Some (401, Text ''Unauthorized'')"
  by (simp add: handleLogin_def res_defs ex_defs str_def truthy_def)

section \<open>The logout handler\<close>

text \<open>
  C8. A logout returns and answers 204, with no body, in every case. Without a cookie \<^verbatim>\<open>jid\<close> it changes
  nothing and clears no cookie. With a cookie it clears the refresh-token cookie; a token
  that is not in the table leaves the state as it was, a token that is there is deleted,
  and no other token of the table is touched. A second logout with the same request leaves
  the state of the first.
\<close>

theorem logout_single_session:
  "outOf (handleLogout e req st) = Returned
   \<and> sent (resOf (handleLogout e req st)) = Some (204, Text [])
   \<and> (\<not> truthy (cookies req ''jid'') \<longrightarrow>
        stateOf (handleLogout e req st) = st \<and> cookieOps (resOf (handleLogout e req st)) = [])
   \<and> (\<forall>t. cookies req ''jid'' = Some t \<and> t \<noteq> [] \<longrightarrow>
        cookieOps (resOf (handleLogout e req st)) = [ClearCookie (refresh_token_cookie_name e)]
        \<and> (refreshTokens st t = None \<longrightarrow> stateOf (handleLogout e req st) = st)
        \<and> stateOf (handleLogout e req st) = st\<lparr>refreshTokens := (refreshTokens st)(t := None)\<rparr>)
   \<and> (\<forall>t. cookies req ''jid'' \<noteq> Some t \<longrightarrow>
        refreshTokens (stateOf (handleLogout e req st)) t = refreshTokens st t)
   \<and> handleLogout e' req (stateOf (handleLogout e req st)) =
        (Returned, resOf (handleLogout e' req (stateOf (handleLogout e req st))), stateOf (handleLogout e req st))
   \<and> sent (resOf (handleLogout e' req (stateOf (handleLogout e req st)))) = Some (204, Text [])"
  by (auto simp add: handleLogout_def rtFindUnique_def rtDelete_def res_defs truthy_def
      delete_absent split: option.splits)

theorem logout_single_session_witness:
  "cookies (cookieRequest ''RA'') ''jid'' = Some ''RA'' \<and> ''RA'' \<noteq> []
   \<and> cookies (cookieRequest ''RA'') ''jid'' \<noteq> Some ''RB''
   \<and> \<not> truthy (cookies (signUpRequest None None None) ''jid'')
   \<and> outOf (handleLogout exEnv (cookieRequest ''RA'') exState) = Returned
   \<and> sent (resOf (handleLogout exEnv (cookieRequest ''RA'') exState)) = Some (204, Text [])
   \<and> cookieOps (resOf (handleLogout exEnv (cookieRequest ''RA'') exState))
        = [ClearCookie (refresh_token_cookie_name exEnv)]
   \<and> stateOf (handleLogout exEnv (cookieRequest ''RA'') exState)
        = exState\<lparr>refreshTokens := (refreshTokens exState)(''RA'' := None)\<rparr>
   \<and> refreshTokens (stateOf (handleLogout exEnv (cookieRequest ''RA'') exState)) ''RB''
        = refreshTokens exState ''RB''
   \<and> stateOf (handleLogout exEnv (cookieRequest ''RA'')
                 (stateOf (handleLogout exEnv (cookieRequest ''RA'') exState)))
        = stateOf (handleLogout exEnv (cookieRequest ''RA'') exState)
   \<and> stateOf (handleLogout exEnv (signUpRequest None None None) exState) = exState
   \<and> cookieOps (resOf (handleLogout exEnv (signUpRequest None None None) exState)) = []"
proof -
  let ?req = "cookieRequest ''RA''"
  let ?none = "signUpRequest None None None"
  have h1: "cookies ?req ''jid'' = Some ''RA''" by (simp add: ex_defs)
  have h2: "''RA'' \<noteq> []" by simp
  have h3: "cookies ?req ''jid'' \<noteq> Some ''RB''" by (simp add: ex_defs)
  have h4: "\<not> truthy (cookies ?none ''jid'')" by (simp add: ex_defs truthy_def)
  note a = logout_single_session [of exEnv ?req exState exEnv]
  note b = logout_single_session [of exEnv ?none exState exEnv]
  have s2: "stateOf (handleLogout exEnv ?req (stateOf (handleLogout exEnv ?req exState)))
        = stateOf (handleLogout exEnv ?req exState)"
  proof -
    from a have "handleLogout exEnv ?req (stateOf (handleLogout exEnv ?req exState)) =
        (Returned, resOf (handleLogout exEnv ?req (stateOf (handleLogout exEnv ?req exState))),
         stateOf (handleLogout exEnv ?req exState))" by blast
    then show ?thesis by (metis parts(3))
  qed
  from a b h1 h2 h3 h4 s2 show ?thesis by blast
qed

section \<open>The signup handler\<close>

text \<open>
  C10, as amended. A signup whose email belongs to a user leaves the state as it was: no
  user, no verification token, no email. It answers 409 Conflict when the request carries
  a username, an email and a password, and 400 when one of them is missing, since the
  fields are checked before the email is looked up.
\<close>

theorem signup_existing_email:
  assumes "users st (str (bodyEmail req)) = Some u"
  shows "stateOf (handleSingUp e req st) = st
    \<and> outOf (handleSingUp e req st) = Returned
    \<and> sent (resOf (handleSingUp e req st)) =
        Some (if truthy (bodyUsername req) \<and> truthy (bodyEmail req) \<and> truthy (bodyPassword req)
              then (409, Text ''Conflict'')
              else (400, Message ''Username, email and password are required!''))"
  using assms by (simp add: handleSingUp_def res_defs)

theorem signup_existing_email_witness:
  "users exState (str (bodyEmail (signUpRequest (Some ''al'') (Some ''alice@x.org'') (Some ''pw'')))) = Some alice
   \<and> stateOf (handleSingUp exEnv (signUpRequest (Some ''al'') (Some ''alice@x.org'') (Some ''pw'')) exState) = exState
   \<and> outOf (handleSingUp exEnv (signUpRequest (Some ''al'') (Some ''alice@x.org'') (Some ''pw'')) exState) = Returned
   \<and> sent (resOf (handleSingUp exEnv (signUpRequest (Some ''al'') (Some ''alice@x.org'') (Some ''pw'')) exState))
        = Some (409, Text ''Conflict'')"
proof -
  let ?req = "signUpRequest (Some ''al'') (Some ''alice@x.org'') (Some ''pw'')"
  have h: "users exState (str (bodyEmail ?req)) = Some alice" by (simp add: ex_defs str_def)
  have t: "truthy (bodyUsername ?req) \<and> truthy (bodyEmail ?req) \<and> truthy (bodyPassword ?req)"
    by (simp add: ex_defs truthy_def)
  from signup_existing_email [OF h, of exEnv] h t show ?thesis by simp
qed

text \<open>
  C10 as stated fails for a request without a username: the email is alice's and the
  answer is 400, not 409.
\<close>

theorem signup_existing_email_counterexample:
  "users exState (str (bodyEmail (signUpRequest None (Some ''alice@x.org'') (Some ''pw'')))) = Some alice
   \<and> sent (resOf (handleSingUp exEnv (signUpRequest None (Some ''alice@x.org'') (Some ''pw'')) exState))
        = Some (400, Message ''Username, email and password are required!'')
   \<and> sent (resOf (handleSingUp exEnv (signUpRequest None (Some ''alice@x.org'') (Some ''pw'')) exState))
        \<noteq> Some (409, Text ''Conflict'')"
  by (simp add: handleSingUp_def res_defs ex_defs str_def truthy_def)

end
